theory Spec2Isabelle
  imports Main
begin

section \<open>Values, entities and errors\<close>

text \<open>
  The scalar values a datastore property or a filter can carry. A calendar date is its
  proleptic ordinal (\<open>date.toordinal()\<close>), a time of day is its microsecond within the
  day, and a combined date-time is the pair of both, so that \<open>datetime.date()\<close> and
  \<open>datetime.time()\<close> are the two projections.
\<close>

datatype pyval =
    PNone
  | PInt int
  | PStr string
  | PDatetime int int
  | PDate int
  | PTime int

text \<open>The exceptions the source raises itself or lets escape from the runtime.\<close>

datatype pyerr = TypeError | NotImplementedError | KeyError | AttributeError

text \<open>
  A candidate result handed back by the underlying query: its attributes by name.
  \<open>getattr(x, name)\<close> raises \<open>AttributeError\<close> when the attribute does not exist.
\<close>

type_synonym entity = "string \<rightharpoonup> pyval"

definition getattr :: "entity \<Rightarrow> string \<Rightarrow> pyerr + pyval" where
  "getattr x nm = (case x nm of None \<Rightarrow> Inl AttributeError | Some v \<Rightarrow> Inr v)"

text \<open>
  The six rich comparisons of the Python runtime, \<open>a > b\<close>, \<open>a < b\<close>, \<open>a >= b\<close>,
  \<open>a <= b\<close>, \<open>a != b\<close> and \<open>a == b\<close>. They belong to the interpreter, not to the
  source, and may raise; the functions of the source take them as the parameter \<open>rt\<close>.
\<close>

datatype cmpop = Gt | Lt | Ge | Le | Ne | Eq

type_synonym runtime = "cmpop \<Rightarrow> pyval \<Rightarrow> pyval \<Rightarrow> pyerr + bool"

text \<open>
  A concrete runtime on the modelled scalars: \<open>==\<close> and \<open>!=\<close> never raise and compare
  structurally; an ordering comparison is defined between two values of the same type
  and raises \<open>TypeError\<close> otherwise, in particular against \<open>None\<close>.
\<close>

fun str_lt :: "string \<Rightarrow> string \<Rightarrow> bool" where
  "str_lt [] [] = False"
| "str_lt [] (y # ys) = True"
| "str_lt (x # xs) [] = False"
| "str_lt (x # xs) (y # ys) =
     ((of_char x :: nat) < of_char y \<or> (x = y \<and> str_lt xs ys))"

fun py_lt :: "pyval \<Rightarrow> pyval \<Rightarrow> pyerr + bool" where
  "py_lt (PInt a) (PInt b) = Inr (a < b)"
| "py_lt (PStr a) (PStr b) = Inr (str_lt a b)"
| "py_lt (PDatetime d t) (PDatetime d' t') = Inr (d < d' \<or> (d = d' \<and> t < t'))"
| "py_lt (PDate d) (PDate d') = Inr (d < d')"
| "py_lt (PTime t) (PTime t') = Inr (t < t')"
| "py_lt _ _ = Inl TypeError"

fun py_cmp :: runtime where
  "py_cmp Eq a b = Inr (a = b)"
| "py_cmp Ne a b = Inr (a \<noteq> b)"
| "py_cmp Lt a b = py_lt a b"
| "py_cmp Gt a b = py_lt b a"
| "py_cmp Le a b = (case py_lt b a of Inl e \<Rightarrow> Inl e | Inr r \<Rightarrow> Inr (\<not> r))"
| "py_cmp Ge a b = (case py_lt a b of Inl e \<Rightarrow> Inl e | Inr r \<Rightarrow> Inr (\<not> r))"

section \<open>Expression trees and the underlying query\<close>

text \<open>
  The subclasses of \<open>ndb.query.Node\<close>. A \<open>FilterNode\<close> holds a property name, an
  operator symbol (any string) and a value; the two compound nodes hold their children in
  order. \<open>FalseNode\<close> and \<open>ParameterNode\<close> are nodes the source accepts and ignores.
\<close>

datatype node =
    FilterNode string string pyval
  | ConjunctionNode "node list"
  | DisjunctionNode "node list"
  | FalseNode
  | ParameterNode

text \<open>The dictionary \<open>_node_to_dict\<close> builds from the attributes of a \<open>FilterNode\<close>.\<close>

record filter_dict =
  name :: string
  symbol :: string
  val :: pyval

definition node_to_dict :: "string \<Rightarrow> string \<Rightarrow> pyval \<Rightarrow> filter_dict" where
  "node_to_dict nm opsym v = \<lparr>name = nm, symbol = opsym, val = v\<rparr>"

text \<open>
  The underlying query, as far as the source reads it: its kind and the filter already
  attached (\<open>None\<close> or one node). \<open>Query.filter\<close> of the backend returns a query whose
  filter is the conjunction of the old filter and the new node.
\<close>

record query =
  kind :: string
  filters :: "node option"

definition query_filter :: "query \<Rightarrow> node \<Rightarrow> query" where
  "query_filter q arg =
     q\<lparr>filters := Some (case filters q of None \<Rightarrow> arg
                                         | Some f \<Rightarrow> ConjunctionNode [f, arg])\<rparr>"

text \<open>
  \<open>ndb.Model._kind_map\<close>: for each kind, the class name of each declared property.
  Both subscripts raise \<open>KeyError\<close> on a missing key.
\<close>

type_synonym kind_map = "string \<rightharpoonup> (string \<rightharpoonup> string)"

text \<open>Arbitrary arguments of the constructor and of \<open>filter\<close>.\<close>

datatype ctor_arg = MetaModel string | Query query | NoQuery pyval

datatype pyobj = Node node | NoNode pyval

section \<open>The session\<close>

record mip =
  query :: query
  first_inequality :: "filter_dict option"
  post_inq_filters :: "node list"

text \<open>
  \<open>_get_inequalities\<close>: the loop over the children of a compound node extends the
  list with the inequalities of each child in turn.
\<close>

fun get_inequalities :: "node \<Rightarrow> filter_dict list"
  and get_inequalities_children :: "node list \<Rightarrow> filter_dict list" where
  "get_inequalities (DisjunctionNode f_node) = get_inequalities_children f_node"
| "get_inequalities (ConjunctionNode f_node) = get_inequalities_children f_node"
| "get_inequalities (FilterNode nm opsym v) =
     (let filter_dict = node_to_dict nm opsym v
      in if symbol filter_dict \<noteq> ''='' then [filter_dict] else [])"
| "get_inequalities FalseNode = []"
| "get_inequalities ParameterNode = []"
| "get_inequalities_children [] = []"
| "get_inequalities_children (f_n # rest) =
     get_inequalities f_n @ get_inequalities_children rest"

text \<open>\<open>_get_first_inequality\<close>; the filter of a query may be \<open>None\<close>, which has no inequalities.\<close>

definition get_first_inequality :: "node option \<Rightarrow> filter_dict option" where
  "get_first_inequality f_node =
     (let inequalities = (case f_node of None \<Rightarrow> [] | Some n \<Rightarrow> get_inequalities n)
      in if length inequalities = 0 then None else Some (hd inequalities))"

text \<open>\<open>__init__\<close>.\<close>

definition init :: "ctor_arg \<Rightarrow> pyerr + mip" where
  "init model_or_query =
     (case model_or_query of
        MetaModel k \<Rightarrow>
          (let q = \<lparr>kind = k, filters = None\<rparr>
           in Inr \<lparr>query = q, first_inequality = get_first_inequality (filters q),
                   post_inq_filters = []\<rparr>)
      | Query q \<Rightarrow>
          Inr \<lparr>query = q, first_inequality = get_first_inequality (filters q),
               post_inq_filters = []\<rparr>
      | NoQuery _ \<Rightarrow> Inl TypeError)"

text \<open>
  The loop of \<open>_push_filter\<close> over the inequalities of the node: it returns the first
  inequality of the session after the loop and the flag \<open>push_to_post\<close>. A dictionary
  built by \<open>_node_to_dict\<close> is never empty, so \<open>not self.first_inequality\<close> holds
  exactly when it is \<open>None\<close>.
\<close>

fun push_loop :: "filter_dict option \<Rightarrow> filter_dict list \<Rightarrow> filter_dict option \<times> bool" where
  "push_loop fi [] = (fi, False)"
| "push_loop None (inq # rest) = push_loop (Some inq) rest"
| "push_loop (Some f) (inq # rest) =
     (if name f \<noteq> name inq then (Some f, True) else push_loop (Some f) rest)"

definition push_filter :: "mip \<Rightarrow> node \<Rightarrow> bool \<times> mip" where
  "push_filter s filter_node =
     (let inequalities = get_inequalities filter_node;
          (fi, push_to_post) = push_loop (first_inequality s) inequalities;
          s1 = s\<lparr>first_inequality := fi\<rparr>
      in if push_to_post
         then (True, s1\<lparr>post_inq_filters := post_inq_filters s1 @ [filter_node]\<rparr>)
         else (False, s1))"

text \<open>
  \<open>filter\<close>: the session is updated in place, so the state reached when the exception
  is raised is part of the result.
\<close>

fun filter_mip :: "mip \<Rightarrow> pyobj list \<Rightarrow> pyerr option \<times> mip" where
  "filter_mip s [] = (None, s)"
| "filter_mip s (NoNode _ # args) = (Some TypeError, s)"
| "filter_mip s (Node arg # args) =
     (case push_filter s arg of
        (True, s1) \<Rightarrow> filter_mip s1 args
      | (False, s1) \<Rightarrow> filter_mip (s1\<lparr>query := query_filter (query s1) arg\<rparr>) args)"

section \<open>Compiling the post filters\<close>

type_synonym evaluator = "entity \<Rightarrow> pyerr + bool"

definition compare_attr :: "runtime \<Rightarrow> cmpop \<Rightarrow> filter_dict \<Rightarrow> evaluator" where
  "compare_attr rt opr f_d x =
     (case getattr x (name f_d) of Inl e \<Rightarrow> Inl e | Inr a \<Rightarrow> rt opr a (val f_d))"

definition make_closure :: "runtime \<Rightarrow> filter_dict \<Rightarrow> pyerr + evaluator" where
  "make_closure rt f_d =
     (if symbol f_d = ''>'' then Inr (compare_attr rt Gt f_d)
      else if symbol f_d = ''<'' then Inr (compare_attr rt Lt f_d)
      else if symbol f_d = ''>='' then Inr (compare_attr rt Ge f_d)
      else if symbol f_d = ''<='' then Inr (compare_attr rt Le f_d)
      else if symbol f_d = ''!='' then Inr (compare_attr rt Ne f_d)
      else if symbol f_d = ''='' then Inr (compare_attr rt Eq f_d)
      else Inl NotImplementedError)"

definition is_datetime :: "pyval \<Rightarrow> bool" where
  "is_datetime v = (case v of PDatetime _ _ \<Rightarrow> True | _ \<Rightarrow> False)"

fun time_of :: "pyval \<Rightarrow> pyval" where
  "time_of (PDatetime d t) = PTime t"
| "time_of v = v"

fun date_of :: "pyval \<Rightarrow> pyval" where
  "date_of (PDatetime d t) = PDate d"
| "date_of v = v"

text \<open>\<open>_make_evaluator\<close> for the \<open>FilterNode\<close> with the given attributes.\<close>

definition make_evaluator ::
  "runtime \<Rightarrow> kind_map \<Rightarrow> query \<Rightarrow> string \<Rightarrow> string \<Rightarrow> pyval \<Rightarrow> pyerr + evaluator" where
  "make_evaluator rt km q nm opsym v =
     (let f_dict = node_to_dict nm opsym v
      in case km (kind q) of
           None \<Rightarrow> Inl KeyError
         | Some properties \<Rightarrow>
             (case properties (name f_dict) of
                None \<Rightarrow> Inl KeyError
              | Some prop_type \<Rightarrow>
                  if prop_type = ''TimeProperty'' \<and> is_datetime (val f_dict)
                  then make_closure rt (f_dict\<lparr>val := time_of (val f_dict)\<rparr>)
                  else if prop_type = ''DateProperty'' \<and> is_datetime (val f_dict)
                  then make_closure rt (f_dict\<lparr>val := date_of (val f_dict)\<rparr>)
                  else make_closure rt f_dict))"

text \<open>The closures \<open>and_evaluators\<close> and \<open>or_evaluators\<close> over a list of evaluators.\<close>

fun and_evaluators :: "evaluator list \<Rightarrow> evaluator" where
  "and_evaluators [] x = Inr True"
| "and_evaluators (p_eval # post_evals) x =
     (case p_eval x of
        Inl e \<Rightarrow> Inl e
      | Inr b \<Rightarrow> if \<not> b then Inr False else and_evaluators post_evals x)"

fun or_evaluators :: "evaluator list \<Rightarrow> evaluator" where
  "or_evaluators [] x = Inr False"
| "or_evaluators (p_eval # post_evals) x =
     (case p_eval x of
        Inl e \<Rightarrow> Inl e
      | Inr b \<Rightarrow> if b then Inr True else or_evaluators post_evals x)"

text \<open>
  \<open>_check_node\<close> over the children of a node (or over the list of post filters), with
  \<open>_make_and_evaluator\<close> and \<open>_make_or_evaluator\<close> inlined at the compound children:
  each is \<open>_check_node\<close> on the children followed by the closure above.
\<close>

fun check_node :: "runtime \<Rightarrow> kind_map \<Rightarrow> query \<Rightarrow> node list \<Rightarrow> pyerr + evaluator list" where
  "check_node rt km q [] = Inr []"
| "check_node rt km q (f_n # rest) =
     (case f_n of
        ConjunctionNode cs \<Rightarrow>
          (case check_node rt km q cs of
             Inl e \<Rightarrow> Inl e
           | Inr post_evals \<Rightarrow>
               (case check_node rt km q rest of
                  Inl e \<Rightarrow> Inl e
                | Inr output \<Rightarrow> Inr (and_evaluators post_evals # output)))
      | DisjunctionNode cs \<Rightarrow>
          (case check_node rt km q cs of
             Inl e \<Rightarrow> Inl e
           | Inr post_evals \<Rightarrow>
               (case check_node rt km q rest of
                  Inl e \<Rightarrow> Inl e
                | Inr output \<Rightarrow> Inr (or_evaluators post_evals # output)))
      | FilterNode nm opsym v \<Rightarrow>
          (case make_evaluator rt km q nm opsym v of
             Inl e \<Rightarrow> Inl e
           | Inr ev \<Rightarrow>
               (case check_node rt km q rest of
                  Inl e \<Rightarrow> Inl e
                | Inr output \<Rightarrow> Inr (ev # output)))
      | FalseNode \<Rightarrow> check_node rt km q rest
      | ParameterNode \<Rightarrow> check_node rt km q rest)"

definition make_and_evaluator ::
  "runtime \<Rightarrow> kind_map \<Rightarrow> query \<Rightarrow> node list \<Rightarrow> pyerr + evaluator" where
  "make_and_evaluator rt km q con_node =
     (case check_node rt km q con_node of
        Inl e \<Rightarrow> Inl e
      | Inr post_evals \<Rightarrow> Inr (and_evaluators post_evals))"

definition make_or_evaluator ::
  "runtime \<Rightarrow> kind_map \<Rightarrow> query \<Rightarrow> node list \<Rightarrow> pyerr + evaluator" where
  "make_or_evaluator rt km q dis_node =
     (case check_node rt km q dis_node of
        Inl e \<Rightarrow> Inl e
      | Inr post_evals \<Rightarrow> Inr (or_evaluators post_evals))"

section \<open>Iteration\<close>

text \<open>
  The generator \<open>__iter__\<close>: the results yielded so far, and the exception that ended
  the iteration, if any. \<open>results\<close> is what the underlying query hands back.
\<close>

fun iter_loop :: "evaluator \<Rightarrow> entity list \<Rightarrow> entity list \<times> pyerr option" where
  "iter_loop post_evaluator [] = ([], None)"
| "iter_loop post_evaluator (result # rest) =
     (case post_evaluator result of
        Inr b \<Rightarrow>
          (let (ys, e) = iter_loop post_evaluator rest
           in if b then (result # ys, e) else (ys, e))
      | Inl TypeError \<Rightarrow> iter_loop post_evaluator rest
      | Inl e \<Rightarrow> ([], Some e))"

definition iter :: "runtime \<Rightarrow> kind_map \<Rightarrow> mip \<Rightarrow> entity list \<Rightarrow> entity list \<times> pyerr option" where
  "iter rt km s results =
     (case make_and_evaluator rt km (query s) (post_inq_filters s) of
        Inl e \<Rightarrow> ([], Some e)
      | Inr post_evaluator \<Rightarrow> iter_loop post_evaluator results)"

section \<open>Notions used to state the properties\<close>

text \<open>
  The leaf comparisons of an expression tree, from left to right, each as the
  dictionary of its \<open>FilterNode\<close>.
\<close>

fun comparisons :: "node \<Rightarrow> filter_dict list"
  and comparisons_children :: "node list \<Rightarrow> filter_dict list" where
  "comparisons (FilterNode nm opsym v) = [node_to_dict nm opsym v]"
| "comparisons (ConjunctionNode cs) = comparisons_children cs"
| "comparisons (DisjunctionNode cs) = comparisons_children cs"
| "comparisons FalseNode = []"
| "comparisons ParameterNode = []"
| "comparisons_children [] = []"
| "comparisons_children (c # cs) = comparisons c @ comparisons_children cs"

text \<open>A tree built from \<open>ConjunctionNode\<close> over \<open>FilterNode\<close> leaves only.\<close>

fun and_only :: "node \<Rightarrow> bool" where
  "and_only (FilterNode nm opsym v) = True"
| "and_only (ConjunctionNode cs) = (\<forall>c \<in> set cs. and_only c)"
| "and_only (DisjunctionNode cs) = False"
| "and_only FalseNode = False"
| "and_only ParameterNode = False"

text \<open>
  One leaf comparison compiled and evaluated on its own: \<open>_make_evaluator\<close> on the
  leaf, then the evaluator applied to the entity.
\<close>

definition leaf_result ::
  "runtime \<Rightarrow> kind_map \<Rightarrow> query \<Rightarrow> entity \<Rightarrow> filter_dict \<Rightarrow> pyerr + bool" where
  "leaf_result rt km q x d =
     (case make_evaluator rt km q (name d) (symbol d) (val d) of
        Inl e \<Rightarrow> Inl e
      | Inr ev \<Rightarrow> ev x)"

text \<open>The node has an inequality on a property other than that of \<open>fi\<close>.\<close>

definition conflicts :: "filter_dict \<Rightarrow> node \<Rightarrow> bool" where
  "conflicts fi n = (\<exists>d \<in> set (get_inequalities n). name d \<noteq> name fi)"

text \<open>The six operator symbols \<open>make_closure\<close> recognises.\<close>

definition recognized :: "string \<Rightarrow> bool" where
  "recognized opsym = (opsym \<in> {''='', ''!='', ''<'', ''<='', ''>'', ''>=''})"

section \<open>Example data\<close>

text \<open>A kind with five declared properties, and a query on it with no filter yet.\<close>

definition employee_properties :: "string \<rightharpoonup> string" where
  "employee_properties =
     [''salary'' \<mapsto> ''IntegerProperty'', ''age'' \<mapsto> ''IntegerProperty'',
      ''dept'' \<mapsto> ''StringProperty'', ''shift'' \<mapsto> ''TimeProperty'',
      ''hired'' \<mapsto> ''DateProperty'']"

definition employees :: kind_map where
  "employees = [''Employee'' \<mapsto> employee_properties]"

definition employee_query :: query where
  "employee_query = \<lparr>kind = ''Employee'', filters = None\<rparr>"

section \<open>Auxiliary facts\<close>

lemmas ev_simps = make_and_evaluator_def make_evaluator_def make_closure_def compare_attr_def
  getattr_def node_to_dict_def leaf_result_def employees_def employee_properties_def
  employee_query_def is_datetime_def

text \<open>
  \<open>check_node\<close> at a compound child, in the form of the source: the evaluator of the
  child is what \<open>_make_and_evaluator\<close> or \<open>_make_or_evaluator\<close> returns for it.
\<close>

lemma check_node_source_form:
  "check_node rt km q (ConjunctionNode cs # rest) =
     (case make_and_evaluator rt km q cs of
        Inl e \<Rightarrow> Inl e
      | Inr ev \<Rightarrow> (case check_node rt km q rest of
                    Inl e \<Rightarrow> Inl e
                  | Inr outs \<Rightarrow> Inr (ev # outs)))"
  "check_node rt km q (DisjunctionNode cs # rest) =
     (case make_or_evaluator rt km q cs of
        Inl e \<Rightarrow> Inl e
      | Inr ev \<Rightarrow> (case check_node rt km q rest of
                    Inl e \<Rightarrow> Inl e
                  | Inr outs \<Rightarrow> Inr (ev # outs)))"
  by (simp_all add: make_and_evaluator_def make_or_evaluator_def split: sum.splits)

lemma get_inequalities_filter:
  "get_inequalities n = filter (\<lambda>d. symbol d \<noteq> ''='') (comparisons n)"
  "get_inequalities_children ns = filter (\<lambda>d. symbol d \<noteq> ''='') (comparisons_children ns)"
  by (induction n and ns rule: get_inequalities_get_inequalities_children.induct)
     (simp_all add: Let_def)

lemma get_inequalities_children_concat:
  "get_inequalities_children ns = concat (map get_inequalities ns)"
  by (induction ns) simp_all

lemma push_loop_Some:
  "fst (push_loop (Some d) inqs) = Some d"
  by (induction inqs) simp_all

lemma push_loop_Some_flag:
  "snd (push_loop (Some q) inqs) = (\<exists>d \<in> set inqs. name d \<noteq> name q)"
  by (induction inqs) auto

lemma push_loop_Some_eq:
  "push_loop (Some q) inqs = (Some q, \<exists>d \<in> set inqs. name d \<noteq> name q)"
  by (simp add: prod_eq_iff push_loop_Some push_loop_Some_flag)

lemma push_filter_Some:
  "first_inequality s = Some q \<Longrightarrow>
   push_filter s n =
     (if conflicts q n then (True, s\<lparr>post_inq_filters := post_inq_filters s @ [n]\<rparr>)
      else (False, s))"
  by (simp add: push_filter_def push_loop_Some_eq conflicts_def)

lemma filter_mip_first_inequality:
  "first_inequality s = Some d \<Longrightarrow> first_inequality (snd (filter_mip s args)) = Some d"
proof (induction s args rule: filter_mip.induct)
  case (3 s arg args)
  then show ?case by (simp add: push_filter_Some)
qed simp_all

lemma filter_mip_calls_first_inequality:
  "first_inequality s = Some d \<Longrightarrow>
   first_inequality (foldl (\<lambda>s args. snd (filter_mip s args)) s calls) = Some d"
  by (induction calls arbitrary: s) (simp_all add: filter_mip_first_inequality)

lemma filter_mip_post:
  "first_inequality s = Some q \<Longrightarrow>
   fst (filter_mip s (map Node ns)) = None \<and>
   post_inq_filters (snd (filter_mip s (map Node ns))) = post_inq_filters s @ filter (conflicts q) ns"
proof (induction ns arbitrary: s)
  case (Cons n ns)
  then show ?case by (simp add: push_filter_Some)
qed simp

lemma and_evaluators_append:
  "and_evaluators (ps @ qs) x =
     (case and_evaluators ps x of
        Inl e \<Rightarrow> Inl e
      | Inr b \<Rightarrow> if \<not> b then Inr False else and_evaluators qs x)"
  by (induction ps) (simp_all split: sum.splits)

lemma leaf_result_node_to_dict:
  "leaf_result rt km q x (node_to_dict nm opsym v) =
     (case make_evaluator rt km q nm opsym v of Inl e \<Rightarrow> Inl e | Inr ev \<Rightarrow> ev x)"
  by (simp add: leaf_result_def node_to_dict_def)

lemma check_node_and_only:
  "\<forall>c \<in> set cs. and_only c \<Longrightarrow>
   \<forall>d \<in> set (comparisons_children cs). \<exists>b. leaf_result rt km q x d = Inr b \<Longrightarrow>
   \<exists>evs. check_node rt km q cs = Inr evs
       \<and> length evs = length cs
       \<and> and_evaluators evs x =
           Inr (\<forall>d \<in> set (comparisons_children cs). leaf_result rt km q x d = Inr True)"
proof (induction rt km q cs rule: check_node.induct)
  case (1 rt km q)
  then show ?case by simp
next
  case (2 rt km q f_n rest)
  show ?case
  proof (cases f_n)
    case (FilterNode nm opsym v)
    from "2.prems"(2) FilterNode obtain b where b: "leaf_result rt km q x (node_to_dict nm opsym v) = Inr b"
      by auto
    then obtain ev where ev: "make_evaluator rt km q nm opsym v = Inr ev" "ev x = Inr b"
      by (auto simp: leaf_result_node_to_dict split: sum.splits)
    have "\<exists>evs. check_node rt km q rest = Inr evs \<and> length evs = length rest
       \<and> and_evaluators evs x =
           Inr (\<forall>d \<in> set (comparisons_children rest). leaf_result rt km q x d = Inr True)"
      using "2.IH"(1) [OF FilterNode ev(1)] "2.prems" by simp
    then obtain evs where evs: "check_node rt km q rest = Inr evs" "length evs = length rest"
       "and_evaluators evs x =
           Inr (\<forall>d \<in> set (comparisons_children rest). leaf_result rt km q x d = Inr True)"
      by blast
    show ?thesis
      using FilterNode ev evs b by (cases b) (auto simp: leaf_result_node_to_dict)
  next
    case (ConjunctionNode cs)
    have "\<exists>evs. check_node rt km q cs = Inr evs \<and> length evs = length cs
       \<and> and_evaluators evs x =
           Inr (\<forall>d \<in> set (comparisons_children cs). leaf_result rt km q x d = Inr True)"
      using "2.IH"(2) [OF ConjunctionNode] "2.prems" ConjunctionNode by simp
    then obtain evs1 where evs1: "check_node rt km q cs = Inr evs1"
       "and_evaluators evs1 x =
           Inr (\<forall>d \<in> set (comparisons_children cs). leaf_result rt km q x d = Inr True)"
      by blast
    have "\<exists>evs. check_node rt km q rest = Inr evs \<and> length evs = length rest
       \<and> and_evaluators evs x =
           Inr (\<forall>d \<in> set (comparisons_children rest). leaf_result rt km q x d = Inr True)"
      using "2.IH"(3) [OF ConjunctionNode evs1(1)] "2.prems" by simp
    then obtain evs where evs: "check_node rt km q rest = Inr evs" "length evs = length rest"
       "and_evaluators evs x =
           Inr (\<forall>d \<in> set (comparisons_children rest). leaf_result rt km q x d = Inr True)"
      by blast
    show ?thesis
      using ConjunctionNode evs1 evs by auto
  next
    case (DisjunctionNode cs)
    with "2.prems"(1) show ?thesis by simp
  next
    case FalseNode
    with "2.prems"(1) show ?thesis by simp
  next
    case ParameterNode
    with "2.prems"(1) show ?thesis by simp
  qed
qed

lemma check_node_declared:
  "km (kind q) = Some properties \<Longrightarrow>
   \<forall>d \<in> set (comparisons_children cs). properties (name d) \<noteq> None \<Longrightarrow>
   (if \<forall>d \<in> set (comparisons_children cs). recognized (symbol d)
    then \<exists>evs. check_node rt km q cs = Inr evs
    else check_node rt km q cs = Inl NotImplementedError)"
proof (induction rt km q cs rule: check_node.induct)
  case (1 rt km q)
  then show ?case by simp
next
  case (2 rt km q f_n rest)
  show ?case
  proof (cases f_n)
    case (FilterNode nm opsym v)
    from "2.prems" FilterNode obtain ty where ty: "properties nm = Some ty"
      by (auto simp: node_to_dict_def)
    have me: "make_evaluator rt km q nm opsym v =
       (if recognized opsym then make_evaluator rt km q nm opsym v else Inl NotImplementedError)"
      using "2.prems"(1) ty
      by (simp add: make_evaluator_def make_closure_def node_to_dict_def recognized_def Let_def)
    have ok: "recognized opsym \<Longrightarrow> \<exists>ev. make_evaluator rt km q nm opsym v = Inr ev"
      using "2.prems"(1) ty
      by (auto simp: make_evaluator_def make_closure_def node_to_dict_def recognized_def Let_def)
    show ?thesis
    proof (cases "recognized opsym")
      case False
      with me FilterNode show ?thesis by (simp add: node_to_dict_def)
    next
      case True
      with ok obtain ev where ev: "make_evaluator rt km q nm opsym v = Inr ev" by blast
      from "2.IH"(1) [OF FilterNode ev] "2.prems" FilterNode
      have "if \<forall>d \<in> set (comparisons_children rest). recognized (symbol d)
            then \<exists>evs. check_node rt km q rest = Inr evs
            else check_node rt km q rest = Inl NotImplementedError"
        by simp
      with True ev FilterNode show ?thesis
        by (auto simp: node_to_dict_def split: if_splits)
    qed
  next
    case (ConjunctionNode cs)
    from "2.IH"(2) [OF ConjunctionNode] "2.prems" ConjunctionNode
    have c: "if \<forall>d \<in> set (comparisons_children cs). recognized (symbol d)
            then \<exists>evs. check_node rt km q cs = Inr evs
            else check_node rt km q cs = Inl NotImplementedError"
      by simp
    show ?thesis
    proof (cases "\<forall>d \<in> set (comparisons_children cs). recognized (symbol d)")
      case False
      with c ConjunctionNode show ?thesis by auto
    next
      case True
      with c obtain evs where evs: "check_node rt km q cs = Inr evs" by auto
      from "2.IH"(3) [OF ConjunctionNode evs] "2.prems" ConjunctionNode
      have "if \<forall>d \<in> set (comparisons_children rest). recognized (symbol d)
            then \<exists>evs. check_node rt km q rest = Inr evs
            else check_node rt km q rest = Inl NotImplementedError"
        by simp
      with True evs ConjunctionNode show ?thesis
        by (auto split: if_splits)
    qed
  next
    case (DisjunctionNode cs)
    from "2.IH"(4) [OF DisjunctionNode] "2.prems" DisjunctionNode
    have c: "if \<forall>d \<in> set (comparisons_children cs). recognized (symbol d)
            then \<exists>evs. check_node rt km q cs = Inr evs
            else check_node rt km q cs = Inl NotImplementedError"
      by simp
    show ?thesis
    proof (cases "\<forall>d \<in> set (comparisons_children cs). recognized (symbol d)")
      case False
      with c DisjunctionNode show ?thesis by auto
    next
      case True
      with c obtain evs where evs: "check_node rt km q cs = Inr evs" by auto
      from "2.IH"(5) [OF DisjunctionNode evs] "2.prems" DisjunctionNode
      have "if \<forall>d \<in> set (comparisons_children rest). recognized (symbol d)
            then \<exists>evs. check_node rt km q rest = Inr evs
            else check_node rt km q rest = Inl NotImplementedError"
        by simp
      with True evs DisjunctionNode show ?thesis
        by (auto split: if_splits)
    qed
  next
    case FalseNode
    from "2.IH"(6) [OF FalseNode] "2.prems" FalseNode show ?thesis by simp
  next
    case ParameterNode
    from "2.IH"(7) [OF ParameterNode] "2.prems" ParameterNode show ?thesis by simp
  qed
qed

lemma filter_mip_nodes_no_error:
  "fst (filter_mip s (map Node ns)) = None"
  by (induction ns arbitrary: s) (auto split: prod.splits bool.splits)

lemma filter_mip_append:
  "filter_mip s (map Node ns @ rest) = filter_mip (snd (filter_mip s (map Node ns))) rest"
  by (induction ns arbitrary: s) (auto split: prod.splits bool.splits)

lemma filter_mip_NoNode:
  "NoNode v \<in> set args \<Longrightarrow> fst (filter_mip s args) = Some TypeError"
proof (induction s args rule: filter_mip.induct)
  case (3 s arg args)
  then show ?case by (auto split: prod.splits bool.splits)
qed auto

lemma iter_loop_skip:
  "p r = Inl TypeError \<Longrightarrow> iter_loop p (rs1 @ r # rs2) = iter_loop p (rs1 @ rs2)"
  by (induction rs1) (auto split: sum.splits pyerr.splits prod.splits)

lemma iter_loop_abort:
  "p r = Inl e \<Longrightarrow> e \<noteq> TypeError \<Longrightarrow> snd (iter_loop p rs1) = None \<Longrightarrow>
   iter_loop p (rs1 @ r # rs2) = (fst (iter_loop p rs1), Some e)"
  by (induction rs1) (auto split: sum.splits pyerr.splits prod.splits if_splits)

lemma py_lt_None: "py_lt PNone v = Inl TypeError" "py_lt v PNone = Inl TypeError"
  by (cases v; simp)+

lemma check_node_and_only_True:
  "\<forall>c \<in> set cs. and_only c \<Longrightarrow> check_node rt km q cs = Inr evs \<Longrightarrow>
   and_evaluators evs x = Inr True \<Longrightarrow>
   \<forall>d \<in> set (comparisons_children cs). leaf_result rt km q x d = Inr True"
proof (induction rt km q cs arbitrary: evs rule: check_node.induct)
  case (1 rt km q)
  then show ?case by simp
next
  case (2 rt km q f_n rest)
  show ?case
  proof (cases f_n)
    case (FilterNode nm opsym v)
    from "2.prems"(2) FilterNode obtain ev outs where
      ev: "make_evaluator rt km q nm opsym v = Inr ev"
      and out: "check_node rt km q rest = Inr outs" and evs: "evs = ev # outs"
      by (auto split: sum.splits)
    from "2.prems"(3) evs have x: "ev x = Inr True" "and_evaluators outs x = Inr True"
      by (auto split: sum.splits if_splits)
    from "2.IH"(1) [OF FilterNode ev _ out x(2)] "2.prems"(1)
    have "\<forall>d \<in> set (comparisons_children rest). leaf_result rt km q x d = Inr True"
      by simp
    with FilterNode ev x(1) show ?thesis
      by (simp add: leaf_result_node_to_dict)
  next
    case (ConjunctionNode cs)
    from "2.prems"(2) ConjunctionNode obtain post_evals outs where
      pe: "check_node rt km q cs = Inr post_evals"
      and out: "check_node rt km q rest = Inr outs"
      and evs: "evs = and_evaluators post_evals # outs"
      by (auto split: sum.splits)
    from "2.prems"(3) evs have x: "and_evaluators post_evals x = Inr True"
      "and_evaluators outs x = Inr True"
      by (auto split: sum.splits if_splits)
    from "2.IH"(2) [OF ConjunctionNode _ pe x(1)] "2.prems"(1) ConjunctionNode
    have a: "\<forall>d \<in> set (comparisons_children cs). leaf_result rt km q x d = Inr True"
      by simp
    from "2.IH"(3) [OF ConjunctionNode pe _ out x(2)] "2.prems"(1)
    have "\<forall>d \<in> set (comparisons_children rest). leaf_result rt km q x d = Inr True"
      by simp
    with a ConjunctionNode show ?thesis by auto
  next
    case (DisjunctionNode cs)
    with "2.prems"(1) show ?thesis by simp
  next
    case FalseNode
    with "2.prems"(1) show ?thesis by simp
  next
    case ParameterNode
    with "2.prems"(1) show ?thesis by simp
  qed
qed

section \<open>The chosen inequality\<close>

text \<open>
  C1. Once the first inequality of a session is set, whether by the constructor from
  the filters of the base query or by an earlier \<open>filter\<close> call, neither
  \<open>_push_filter\<close> on any node, nor \<open>filter\<close> on any arguments (also when it ends
  in an exception), nor any sequence of \<open>filter\<close> calls changes it.
\<close>

theorem first_inequality_immutable:
  assumes "first_inequality s = Some d"
  shows "first_inequality (snd (push_filter s n)) = Some d
       \<and> first_inequality (snd (filter_mip s args)) = Some d
       \<and> first_inequality (foldl (\<lambda>s args. snd (filter_mip s args)) s calls) = Some d"
  using assms
  by (simp add: push_filter_Some filter_mip_first_inequality filter_mip_calls_first_inequality)

theorem first_inequality_immutable_witness:
  "first_inequality (snd (filter_mip
        \<lparr>query = employee_query, first_inequality = None, post_inq_filters = []\<rparr>
        [Node (FilterNode ''salary'' ''>'' (PInt 50000))]))
     = Some \<lparr>name = ''salary'', symbol = ''>'', val = PInt 50000\<rparr>
   \<and> first_inequality (snd (filter_mip (snd (filter_mip
        \<lparr>query = employee_query, first_inequality = None, post_inq_filters = []\<rparr>
        [Node (FilterNode ''salary'' ''>'' (PInt 50000))]))
        [Node (FilterNode ''age'' ''<'' (PInt 30)), NoNode (PStr ''age'')]))
     = Some \<lparr>name = ''salary'', symbol = ''>'', val = PInt 50000\<rparr>"
proof -
  let ?s0 = "\<lparr>query = employee_query, first_inequality = None, post_inq_filters = []\<rparr>"
  let ?s1 = "snd (filter_mip ?s0 [Node (FilterNode ''salary'' ''>'' (PInt 50000))])"
  have h: "first_inequality ?s1 = Some \<lparr>name = ''salary'', symbol = ''>'', val = PInt 50000\<rparr>"
    by (simp add: push_filter_def node_to_dict_def)
  from first_inequality_immutable [OF h] h show ?thesis by blast
qed

section \<open>Routing a filter\<close>

text \<open>
  C2. A node whose leaf comparisons all have the symbol \<open>=\<close> is never added to the
  post filters, whatever the first inequality of the session is: \<open>_push_filter\<close>
  returns \<open>False\<close> and leaves the session as it was, and \<open>filter\<close> hands the node to
  the underlying query.
\<close>

theorem equality_only_accepted:
  assumes "\<forall>d \<in> set (comparisons n). symbol d = ''=''"
  shows "push_filter s n = (False, s)
       \<and> filter_mip s [Node n] = (None, s\<lparr>query := query_filter (query s) n\<rparr>)"
proof -
  have "get_inequalities n = []"
    using assms by (simp add: get_inequalities_filter(1) filter_empty_conv)
  then have "push_filter s n = (False, s)"
    by (simp add: push_filter_def)
  then show ?thesis by simp
qed

theorem equality_only_accepted_witness:
  "push_filter
      \<lparr>query = employee_query,
       first_inequality = Some \<lparr>name = ''salary'', symbol = ''>'', val = PInt 50000\<rparr>,
       post_inq_filters = []\<rparr>
      (DisjunctionNode [FilterNode ''dept'' ''='' (PStr ''eng''),
         ConjunctionNode [FilterNode ''age'' ''='' (PInt 30), FilterNode ''dept'' ''='' PNone]])
    = (False,
       \<lparr>query = employee_query,
        first_inequality = Some \<lparr>name = ''salary'', symbol = ''>'', val = PInt 50000\<rparr>,
        post_inq_filters = []\<rparr>)"
proof -
  let ?n = "DisjunctionNode [FilterNode ''dept'' ''='' (PStr ''eng''),
         ConjunctionNode [FilterNode ''age'' ''='' (PInt 30), FilterNode ''dept'' ''='' PNone]]"
  have h: "\<forall>d \<in> set (comparisons ?n). symbol d = ''=''"
    by (simp add: node_to_dict_def)
  from equality_only_accepted [OF h] show ?thesis by blast
qed

text \<open>
  C3. In a session whose first inequality is on the property of \<open>q\<close>, a node with an
  inequality \<open>d\<close> on another property is deferred: \<open>_push_filter\<close> returns \<open>True\<close>
  and appends the whole node to the post filters, and \<open>filter\<close> leaves the underlying
  query alone. Over the arguments of a \<open>filter\<close> call the post filters grow by the
  deferred nodes in the order of the arguments.
\<close>

theorem conflicting_inequality_deferred:
  assumes "first_inequality s = Some q"
  shows "(d \<in> set (get_inequalities n) \<and> name d \<noteq> name q \<longrightarrow>
            push_filter s n = (True, s\<lparr>post_inq_filters := post_inq_filters s @ [n]\<rparr>)
          \<and> filter_mip s [Node n] = (None, s\<lparr>post_inq_filters := post_inq_filters s @ [n]\<rparr>))
       \<and> post_inq_filters (snd (filter_mip s (map Node ns))) =
            post_inq_filters s @ filter (conflicts q) ns"
proof -
  have "push_filter s n = (True, s\<lparr>post_inq_filters := post_inq_filters s @ [n]\<rparr>)"
    if "d \<in> set (get_inequalities n)" "name d \<noteq> name q"
  proof -
    from that have "conflicts q n" by (auto simp: conflicts_def)
    with assms show ?thesis by (simp add: push_filter_Some)
  qed
  with assms show ?thesis by (simp add: filter_mip_post)
qed

theorem conflicting_inequality_deferred_witness:
  "push_filter
      \<lparr>query = employee_query,
       first_inequality = Some \<lparr>name = ''salary'', symbol = ''>'', val = PInt 50000\<rparr>,
       post_inq_filters = [FilterNode ''dept'' ''!='' (PStr ''ops'')]\<rparr>
      (ConjunctionNode [FilterNode ''salary'' ''<'' (PInt 90000), FilterNode ''age'' ''<'' (PInt 30)])
    = (True,
       \<lparr>query = employee_query,
        first_inequality = Some \<lparr>name = ''salary'', symbol = ''>'', val = PInt 50000\<rparr>,
        post_inq_filters = [FilterNode ''dept'' ''!='' (PStr ''ops''),
          ConjunctionNode [FilterNode ''salary'' ''<'' (PInt 90000),
                           FilterNode ''age'' ''<'' (PInt 30)]]\<rparr>)
   \<and> post_inq_filters (snd (filter_mip
        \<lparr>query = employee_query,
         first_inequality = Some \<lparr>name = ''salary'', symbol = ''>'', val = PInt 50000\<rparr>,
         post_inq_filters = [FilterNode ''dept'' ''!='' (PStr ''ops'')]\<rparr>
        (map Node [FilterNode ''age'' ''<'' (PInt 30), FilterNode ''salary'' ''<'' (PInt 90000),
                   FilterNode ''hired'' ''>'' (PDate 737425)])))
     = [FilterNode ''dept'' ''!='' (PStr ''ops''), FilterNode ''age'' ''<'' (PInt 30),
        FilterNode ''hired'' ''>'' (PDate 737425)]"
proof -
  let ?q = "\<lparr>name = ''salary'', symbol = ''>'', val = PInt 50000\<rparr>"
  let ?s = "\<lparr>query = employee_query, first_inequality = Some ?q,
       post_inq_filters = [FilterNode ''dept'' ''!='' (PStr ''ops'')]\<rparr>"
  let ?n = "ConjunctionNode [FilterNode ''salary'' ''<'' (PInt 90000), FilterNode ''age'' ''<'' (PInt 30)]"
  let ?d = "\<lparr>name = ''age'', symbol = ''<'', val = PInt 30\<rparr>"
  let ?ns = "[FilterNode ''age'' ''<'' (PInt 30), FilterNode ''salary'' ''<'' (PInt 90000),
                   FilterNode ''hired'' ''>'' (PDate 737425)]"
  have h: "first_inequality ?s = Some ?q" by simp
  have d: "?d \<in> set (get_inequalities ?n) \<and> name ?d \<noteq> name ?q"
    by (simp add: node_to_dict_def)
  have f: "filter (conflicts ?q) ?ns =
     [FilterNode ''age'' ''<'' (PInt 30), FilterNode ''hired'' ''>'' (PDate 737425)]"
    by (simp add: conflicts_def node_to_dict_def)
  note t = conflicting_inequality_deferred [OF h, of ?d ?n ?ns]
  from t d have 1: "push_filter ?s ?n =
      (True, ?s\<lparr>post_inq_filters := post_inq_filters ?s @ [?n]\<rparr>)"
    by blast
  from t have "post_inq_filters (snd (filter_mip ?s (map Node ?ns))) =
      post_inq_filters ?s @ filter (conflicts ?q) ?ns"
    by (rule conjunct2)
  also have "\<dots> = [FilterNode ''dept'' ''!='' (PStr ''ops''), FilterNode ''age'' ''<'' (PInt 30),
        FilterNode ''hired'' ''>'' (PDate 737425)]"
    unfolding f by simp
  finally have 2: "post_inq_filters (snd (filter_mip ?s (map Node ?ns))) =
     [FilterNode ''dept'' ''!='' (PStr ''ops''), FilterNode ''age'' ''<'' (PInt 30),
        FilterNode ''hired'' ''>'' (PDate 737425)]" .
  from 1 have 3: "push_filter ?s ?n = (True, \<lparr>query = employee_query, first_inequality = Some ?q,
        post_inq_filters = [FilterNode ''dept'' ''!='' (PStr ''ops''), ?n]\<rparr>)"
    by simp
  from 3 2 show ?thesis by (rule conjI)
qed

section \<open>Extracting the inequalities\<close>

text \<open>
  C7. \<open>_get_inequalities\<close> of a \<open>FilterNode\<close> is the one-element list of its
  dictionary when the symbol is not \<open>=\<close> and the empty list otherwise; of a
  conjunction or disjunction it is the concatenation, in child order, of the results for
  the children; so for every tree it is the list of the leaf comparisons whose symbol is
  not \<open>=\<close>, from left to right.
\<close>

theorem get_inequalities_spec:
  "get_inequalities (FilterNode nm opsym v) =
     (if opsym \<noteq> ''='' then [\<lparr>name = nm, symbol = opsym, val = v\<rparr>] else [])
   \<and> get_inequalities (ConjunctionNode cs) = concat (map get_inequalities cs)
   \<and> get_inequalities (DisjunctionNode cs) = concat (map get_inequalities cs)
   \<and> get_inequalities n = filter (\<lambda>d. symbol d \<noteq> ''='') (comparisons n)"
  by (simp add: get_inequalities_children_concat get_inequalities_filter(1) [of n]
        node_to_dict_def Let_def)

theorem get_inequalities_spec_witness:
  "get_inequalities
     (ConjunctionNode [FilterNode ''dept'' ''='' (PStr ''eng''),
        DisjunctionNode [FilterNode ''age'' ''<'' (PInt 30), FilterNode ''salary'' ''in'' (PInt 1)],
        FalseNode, FilterNode ''age'' ''!='' (PInt 21)])
   = [\<lparr>name = ''age'', symbol = ''<'', val = PInt 30\<rparr>,
      \<lparr>name = ''salary'', symbol = ''in'', val = PInt 1\<rparr>,
      \<lparr>name = ''age'', symbol = ''!='', val = PInt 21\<rparr>]"
  using get_inequalities_spec [of "''dept''" "''=''" "PStr ''eng''" "[]"
     "ConjunctionNode [FilterNode ''dept'' ''='' (PStr ''eng''),
        DisjunctionNode [FilterNode ''age'' ''<'' (PInt 30), FilterNode ''salary'' ''in'' (PInt 1)],
        FalseNode, FilterNode ''age'' ''!='' (PInt 21)]"]
  by (simp add: node_to_dict_def)

section \<open>Compiled predicates\<close>

text \<open>
  C6. For a tree built from conjunctions over comparison leaves only, and an entity on
  which every leaf comparison, compiled and evaluated on its own, gives a boolean, the
  tree compiles, and the compiled predicate gives on the entity the conjunction of the
  booleans of the leaves: returning at the first false leaf does not change the result.
  Whatever the leaves do on the entity, the tree compiles to a predicate that is true
  on it exactly when every leaf, on its own, is true on it. The predicate of no children
  at all is true.
\<close>

theorem and_tree_is_conjunction_of_leaves:
  assumes "and_only t"
  shows "((\<forall>d \<in> set (comparisons t). \<exists>b. leaf_result rt km q x d = Inr b) \<longrightarrow>
            (\<exists>p. make_and_evaluator rt km q [t] = Inr p
              \<and> p x = Inr (\<forall>d \<in> set (comparisons t). leaf_result rt km q x d = Inr True)))
       \<and> ((\<exists>p. make_and_evaluator rt km q [t] = Inr p \<and> p x = Inr True) =
            (\<forall>d \<in> set (comparisons t). leaf_result rt km q x d = Inr True))
       \<and> (\<exists>p. make_and_evaluator rt km q [] = Inr p \<and> p x = Inr True)"
proof -
  have 1: "\<exists>p. make_and_evaluator rt km q [t] = Inr p
              \<and> p x = Inr (\<forall>d \<in> set (comparisons t). leaf_result rt km q x d = Inr True)"
    if l: "\<forall>d \<in> set (comparisons t). \<exists>b. leaf_result rt km q x d = Inr b"
  proof -
    from assms l have "\<exists>evs. check_node rt km q [t] = Inr evs
         \<and> length evs = length [t]
         \<and> and_evaluators evs x =
             Inr (\<forall>d \<in> set (comparisons_children [t]). leaf_result rt km q x d = Inr True)"
      by (intro check_node_and_only) simp_all
    then show ?thesis by (auto simp: make_and_evaluator_def)
  qed
  have 2: "\<forall>d \<in> set (comparisons t). leaf_result rt km q x d = Inr True"
    if "make_and_evaluator rt km q [t] = Inr p" "p x = Inr True" for p
  proof -
    from that obtain evs where "check_node rt km q [t] = Inr evs" "and_evaluators evs x = Inr True"
      by (auto simp: make_and_evaluator_def split: sum.splits)
    with assms check_node_and_only_True [of "[t]" rt km q evs x] show ?thesis by simp
  qed
  have 3: "\<exists>p. make_and_evaluator rt km q [t] = Inr p \<and> p x = Inr True"
    if "\<forall>d \<in> set (comparisons t). leaf_result rt km q x d = Inr True"
    using 1 that by auto
  have 4: "\<exists>p. make_and_evaluator rt km q [] = Inr p \<and> p x = Inr True"
    by (simp add: make_and_evaluator_def)
  from 1 2 3 4 show ?thesis by blast
qed

theorem and_tree_is_conjunction_of_leaves_witness:
  "and_only (ConjunctionNode [FilterNode ''salary'' ''>'' (PInt 50000),
                              ConjunctionNode [FilterNode ''age'' ''<'' (PInt 30)]])
   \<and> (\<exists>p. make_and_evaluator py_cmp employees employee_query
            [ConjunctionNode [FilterNode ''salary'' ''>'' (PInt 50000),
                              ConjunctionNode [FilterNode ''age'' ''<'' (PInt 30)]]] = Inr p
          \<and> p [''salary'' \<mapsto> PInt 60000, ''age'' \<mapsto> PInt 40] = Inr False)"
proof -
  let ?t = "ConjunctionNode [FilterNode ''salary'' ''>'' (PInt 50000),
                              ConjunctionNode [FilterNode ''age'' ''<'' (PInt 30)]]"
  let ?x = "[''salary'' \<mapsto> PInt 60000, ''age'' \<mapsto> PInt 40]"
  have a: "and_only ?t" by simp
  have l: "\<forall>d \<in> set (comparisons ?t). \<exists>b. leaf_result py_cmp employees employee_query ?x d = Inr b"
    by (auto simp: ev_simps)
  have r: "(\<forall>d \<in> set (comparisons ?t). leaf_result py_cmp employees employee_query ?x d = Inr True) = False"
    by (simp add: ev_simps)
  from and_tree_is_conjunction_of_leaves [OF a, of py_cmp employees employee_query ?x] l
  have "\<exists>p. make_and_evaluator py_cmp employees employee_query [?t] = Inr p
          \<and> p ?x = Inr (\<forall>d \<in> set (comparisons ?t).
                leaf_result py_cmp employees employee_query ?x d = Inr True)"
    by blast
  with a show ?thesis unfolding r by blast
qed

text \<open>
  C8. For a comparison on a property declared as \<open>TimeProperty\<close> (\<open>DateProperty\<close>)
  whose value is a combined date-time, \<open>_make_evaluator\<close> returns the closure for the
  same comparison against the time of day (the calendar date) of that value; a value
  that is not a combined date-time is compared as it is.
\<close>

theorem temporal_value_converted_back:
  assumes "km (kind q) = Some properties" and "properties nm = Some prop_type"
  shows "(prop_type = ''TimeProperty'' \<longrightarrow>
            make_evaluator rt km q nm opsym (PDatetime d t) =
              make_closure rt \<lparr>name = nm, symbol = opsym, val = PTime t\<rparr>)
       \<and> (prop_type = ''DateProperty'' \<longrightarrow>
            make_evaluator rt km q nm opsym (PDatetime d t) =
              make_closure rt \<lparr>name = nm, symbol = opsym, val = PDate d\<rparr>)
       \<and> (\<not> is_datetime v \<longrightarrow>
            make_evaluator rt km q nm opsym v =
              make_closure rt \<lparr>name = nm, symbol = opsym, val = v\<rparr>)"
  using assms by (simp add: make_evaluator_def node_to_dict_def is_datetime_def)

theorem temporal_value_converted_back_witness:
  "make_evaluator py_cmp employees employee_query ''shift'' ''<'' (PDatetime 719163 32400000000) =
       make_closure py_cmp \<lparr>name = ''shift'', symbol = ''<'', val = PTime 32400000000\<rparr>
   \<and> make_evaluator py_cmp employees employee_query ''hired'' ''>='' (PDatetime 737425 0) =
       make_closure py_cmp \<lparr>name = ''hired'', symbol = ''>='', val = PDate 737425\<rparr>
   \<and> make_evaluator py_cmp employees employee_query ''age'' ''<'' (PInt 30) =
       make_closure py_cmp \<lparr>name = ''age'', symbol = ''<'', val = PInt 30\<rparr>"
proof -
  have k: "employees (kind employee_query) = Some employee_properties"
    by (simp add: employees_def employee_query_def)
  have s: "employee_properties ''shift'' = Some ''TimeProperty''"
    by (simp add: employee_properties_def)
  have h: "employee_properties ''hired'' = Some ''DateProperty''"
    by (simp add: employee_properties_def)
  have a: "employee_properties ''age'' = Some ''IntegerProperty''"
    by (simp add: employee_properties_def)
  have n: "\<not> is_datetime (PInt 30)" by (simp add: is_datetime_def)
  from temporal_value_converted_back [of employees employee_query employee_properties
         "''shift''" "''TimeProperty''" py_cmp "''<''" 719163 32400000000, OF k s]
       temporal_value_converted_back [of employees employee_query employee_properties
         "''hired''" "''DateProperty''" py_cmp "''>=''" 737425 0, OF k h]
       temporal_value_converted_back [of employees employee_query employee_properties
         "''age''" "''IntegerProperty''" py_cmp "''<''" _ _ "PInt 30", OF k a] n
  show ?thesis by simp
qed

text \<open>
  C5. A comparison whose symbol is none of \<open>=\<close>, \<open>!=\<close>, \<open><\<close>, \<open><=\<close>, \<open>>\<close>,
  \<open>>=\<close> makes \<open>make_closure\<close> raise \<open>NotImplementedError\<close>, and so does
  \<open>_make_evaluator\<close> on a property the kind map declares. \<open>filter\<close> raises nothing
  on a node, whatever its symbols. Iterating a session whose post filters hold such a
  comparison (all their properties declared) raises \<open>NotImplementedError\<close> before any
  result is yielded.
\<close>

theorem unsupported_operator_at_compile_time:
  assumes "\<not> recognized opsym"
  shows "make_closure rt \<lparr>name = nm, symbol = opsym, val = v\<rparr> = Inl NotImplementedError
       \<and> (km (kind q) = Some properties \<and> properties nm \<noteq> None \<longrightarrow>
            make_evaluator rt km q nm opsym v = Inl NotImplementedError)
       \<and> fst (filter_mip s [Node n]) = None
       \<and> (km (kind (query s)) = Some properties
            \<and> (\<forall>d \<in> set (comparisons_children (post_inq_filters s)). properties (name d) \<noteq> None)
            \<and> \<lparr>name = nm, symbol = opsym, val = v\<rparr> \<in> set (comparisons_children (post_inq_filters s))
          \<longrightarrow> iter rt km s results = ([], Some NotImplementedError))"
proof -
  have 1: "make_closure rt \<lparr>name = nm, symbol = opsym, val = v\<rparr> = Inl NotImplementedError"
    using assms by (simp add: make_closure_def recognized_def)
  have 2: "make_evaluator rt km q nm opsym v = Inl NotImplementedError"
    if "km (kind q) = Some properties" "properties nm \<noteq> None"
    using that assms
    by (auto simp: make_evaluator_def make_closure_def node_to_dict_def recognized_def Let_def)
  have 3: "fst (filter_mip s [Node n]) = None"
    using filter_mip_nodes_no_error [of s "[n]"] by simp
  have 4: "iter rt km s results = ([], Some NotImplementedError)"
    if k: "km (kind (query s)) = Some properties"
      and d: "\<forall>d \<in> set (comparisons_children (post_inq_filters s)). properties (name d) \<noteq> None"
      and m: "\<lparr>name = nm, symbol = opsym, val = v\<rparr> \<in> set (comparisons_children (post_inq_filters s))"
  proof -
    from m assms have "\<not> (\<forall>d \<in> set (comparisons_children (post_inq_filters s)). recognized (symbol d))"
      by force
    with check_node_declared [where km = km and q = "query s" and properties = properties
        and cs = "post_inq_filters s" and rt = rt, OF k d]
    have "check_node rt km (query s) (post_inq_filters s) = Inl NotImplementedError"
      by simp
    then show ?thesis by (simp add: iter_def make_and_evaluator_def)
  qed
  from 1 2 3 4 show ?thesis by blast
qed

theorem unsupported_operator_at_compile_time_witness:
  "\<not> recognized ''in''
   \<and> make_evaluator py_cmp employees employee_query ''age'' ''in'' (PInt 30) = Inl NotImplementedError
   \<and> fst (filter_mip \<lparr>query = employee_query,
         first_inequality = Some \<lparr>name = ''salary'', symbol = ''>'', val = PInt 50000\<rparr>,
         post_inq_filters = []\<rparr> [Node (FilterNode ''age'' ''in'' (PInt 30))]) = None
   \<and> iter py_cmp employees
        \<lparr>query = employee_query,
         first_inequality = Some \<lparr>name = ''salary'', symbol = ''>'', val = PInt 50000\<rparr>,
         post_inq_filters = [FilterNode ''age'' ''in'' (PInt 30)]\<rparr>
        [[''salary'' \<mapsto> PInt 60000, ''age'' \<mapsto> PInt 25]]
      = ([], Some NotImplementedError)"
proof -
  let ?e = "\<lparr>query = employee_query,
         first_inequality = Some \<lparr>name = ''salary'', symbol = ''>'', val = PInt 50000\<rparr>,
         post_inq_filters = []\<rparr>"
  let ?s = "\<lparr>query = employee_query,
         first_inequality = Some \<lparr>name = ''salary'', symbol = ''>'', val = PInt 50000\<rparr>,
         post_inq_filters = [FilterNode ''age'' ''in'' (PInt 30)]\<rparr>"
  have r: "\<not> recognized ''in''" by (simp add: recognized_def)
  have k: "employees (kind employee_query) = Some employee_properties"
    by (simp add: employees_def employee_query_def)
  have k': "employees (kind (query ?s)) = Some employee_properties"
    by (simp add: employees_def employee_query_def)
  have a: "employee_properties ''age'' \<noteq> None"
    by (simp add: employee_properties_def)
  have d: "\<forall>d \<in> set (comparisons_children (post_inq_filters ?s)). employee_properties (name d) \<noteq> None"
    by (simp add: employee_properties_def node_to_dict_def)
  have m: "\<lparr>name = ''age'', symbol = ''in'', val = PInt 30\<rparr>
             \<in> set (comparisons_children (post_inq_filters ?s))"
    by (simp add: node_to_dict_def)
  note t = unsupported_operator_at_compile_time [OF r, of py_cmp "''age''" "PInt 30" employees
             employee_query employee_properties]
  from t [of ?e "FilterNode ''age'' ''in'' (PInt 30)"] k a
  have 1: "make_evaluator py_cmp employees employee_query ''age'' ''in'' (PInt 30) = Inl NotImplementedError"
    and 2: "fst (filter_mip ?e [Node (FilterNode ''age'' ''in'' (PInt 30))]) = None"
    by blast+
  from t [of ?s _ "[[''salary'' \<mapsto> PInt 60000, ''age'' \<mapsto> PInt 25]]"] k' d m
  have 3: "iter py_cmp employees ?s [[''salary'' \<mapsto> PInt 60000, ''age'' \<mapsto> PInt 25]]
      = ([], Some NotImplementedError)"
    by blast
  from r 1 2 3 show ?thesis by blast
qed

section \<open>Arguments that are no nodes\<close>

text \<open>
  C9. \<open>filter\<close> raises \<open>TypeError\<close> when one of its arguments is not a node, and
  the constructor raises \<open>TypeError\<close> on an argument that is neither a model class nor
  a query; each is the outcome of the call itself.
\<close>

theorem non_node_rejected:
  "(NoNode v \<in> set args \<longrightarrow> fst (filter_mip s args) = Some TypeError)
   \<and> filter_mip s [NoNode v] = (Some TypeError, s)
   \<and> init (NoQuery v) = Inl TypeError"
  by (simp add: filter_mip_NoNode init_def)

theorem non_node_rejected_witness:
  "fst (filter_mip \<lparr>query = employee_query, first_inequality = None, post_inq_filters = []\<rparr>
         [Node (FilterNode ''dept'' ''='' (PStr ''eng'')), NoNode (PStr ''age < 30'')])
     = Some TypeError
   \<and> init (NoQuery (PStr ''Employee'')) = Inl TypeError"
proof -
  have h: "NoNode (PStr ''age < 30'') \<in>
      set [Node (FilterNode ''dept'' ''='' (PStr ''eng'')), NoNode (PStr ''age < 30'')]"
    by simp
  from non_node_rejected [of "PStr ''age < 30''"
      "[Node (FilterNode ''dept'' ''='' (PStr ''eng'')), NoNode (PStr ''age < 30'')]"
      "\<lparr>query = employee_query, first_inequality = None, post_inq_filters = []\<rparr>"] h
    non_node_rejected [of "PStr ''Employee''" "[]"
      "\<lparr>query = employee_query, first_inequality = None, post_inq_filters = []\<rparr>"]
  show ?thesis by blast
qed

text \<open>
  C10. \<open>filter\<close> on arguments of which the first that is not a node comes after the
  nodes \<open>ns\<close> raises \<open>TypeError\<close> in the state that \<open>filter\<close> on \<open>ns\<close> alone
  reaches without an exception: the earlier arguments have been routed, the later ones
  are never looked at.
\<close>

theorem filter_not_atomic:
  "filter_mip s (map Node ns @ NoNode v # rest) =
     (Some TypeError, snd (filter_mip s (map Node ns)))
   \<and> fst (filter_mip s (map Node ns)) = None"
  by (simp add: filter_mip_append filter_mip_nodes_no_error)

theorem filter_not_atomic_witness:
  "filter_mip \<lparr>query = employee_query, first_inequality = None, post_inq_filters = []\<rparr>
     [Node (FilterNode ''salary'' ''>'' (PInt 50000)), Node (FilterNode ''age'' ''<'' (PInt 30)),
      NoNode (PStr ''dept''), Node (FilterNode ''dept'' ''='' (PStr ''eng''))]
   = (Some TypeError,
      \<lparr>query = \<lparr>kind = ''Employee'', filters = Some (FilterNode ''salary'' ''>'' (PInt 50000))\<rparr>,
       first_inequality = Some \<lparr>name = ''salary'', symbol = ''>'', val = PInt 50000\<rparr>,
       post_inq_filters = [FilterNode ''age'' ''<'' (PInt 30)]\<rparr>)"
proof -
  let ?s = "\<lparr>query = employee_query, first_inequality = None, post_inq_filters = []\<rparr>"
  let ?ns = "[FilterNode ''salary'' ''>'' (PInt 50000), FilterNode ''age'' ''<'' (PInt 30)]"
  have p: "snd (filter_mip ?s (map Node ?ns)) =
      \<lparr>query = \<lparr>kind = ''Employee'', filters = Some (FilterNode ''salary'' ''>'' (PInt 50000))\<rparr>,
       first_inequality = Some \<lparr>name = ''salary'', symbol = ''>'', val = PInt 50000\<rparr>,
       post_inq_filters = [FilterNode ''age'' ''<'' (PInt 30)]\<rparr>"
    by (simp add: push_filter_def node_to_dict_def query_filter_def employee_query_def)
  from filter_not_atomic [of ?s ?ns "PStr ''dept''" "[Node (FilterNode ''dept'' ''='' (PStr ''eng''))]"]
  have "filter_mip ?s (map Node ?ns @ NoNode (PStr ''dept'') # [Node (FilterNode ''dept'' ''='' (PStr ''eng''))])
      = (Some TypeError, snd (filter_mip ?s (map Node ?ns)))"
    by (rule conjunct1)
  then show ?thesis unfolding p by simp
qed

section \<open>Iterating\<close>

text \<open>
  C4, as stated, fails: a result whose \<open>dept\<close> is \<open>None\<close> is handed back although
  the post filter compares \<open>dept\<close>, once in a disjunction whose other comparison
  holds, once in a conjunction with \<open>dept = None\<close> itself. Comparing \<open>None\<close> with
  \<open>==\<close> raises nothing.
\<close>

theorem null_valued_record_in_output:
  "filter_mip \<lparr>query = employee_query, first_inequality = None, post_inq_filters = []\<rparr>
     [Node (FilterNode ''salary'' ''>'' (PInt 50000)),
      Node (DisjunctionNode [FilterNode ''dept'' ''='' (PStr ''eng''),
                             FilterNode ''age'' ''<'' (PInt 30)])]
   = (None,
      \<lparr>query = \<lparr>kind = ''Employee'', filters = Some (FilterNode ''salary'' ''>'' (PInt 50000))\<rparr>,
       first_inequality = Some \<lparr>name = ''salary'', symbol = ''>'', val = PInt 50000\<rparr>,
       post_inq_filters = [DisjunctionNode [FilterNode ''dept'' ''='' (PStr ''eng''),
                                            FilterNode ''age'' ''<'' (PInt 30)]]\<rparr>)
   \<and> iter py_cmp employees
       \<lparr>query = \<lparr>kind = ''Employee'', filters = Some (FilterNode ''salary'' ''>'' (PInt 50000))\<rparr>,
        first_inequality = Some \<lparr>name = ''salary'', symbol = ''>'', val = PInt 50000\<rparr>,
        post_inq_filters = [DisjunctionNode [FilterNode ''dept'' ''='' (PStr ''eng''),
                                             FilterNode ''age'' ''<'' (PInt 30)]]\<rparr>
       [[''salary'' \<mapsto> PInt 60000, ''age'' \<mapsto> PInt 25, ''dept'' \<mapsto> PNone]]
     = ([[''salary'' \<mapsto> PInt 60000, ''age'' \<mapsto> PInt 25, ''dept'' \<mapsto> PNone]], None)
   \<and> iter py_cmp employees
       \<lparr>query = \<lparr>kind = ''Employee'', filters = Some (FilterNode ''salary'' ''>'' (PInt 50000))\<rparr>,
        first_inequality = Some \<lparr>name = ''salary'', symbol = ''>'', val = PInt 50000\<rparr>,
        post_inq_filters = [ConjunctionNode [FilterNode ''dept'' ''='' PNone,
                                             FilterNode ''age'' ''<'' (PInt 30)]]\<rparr>
       [[''salary'' \<mapsto> PInt 60000, ''age'' \<mapsto> PInt 25, ''dept'' \<mapsto> PNone]]
     = ([[''salary'' \<mapsto> PInt 60000, ''age'' \<mapsto> PInt 25, ''dept'' \<mapsto> PNone]], None)"
  by (simp add: push_filter_def query_filter_def iter_def ev_simps)

text \<open>
  C4, amended. With the post filters compiled to \<open>p\<close>: a result on which \<open>p\<close>
  raises \<open>TypeError\<close> is left out and the iteration goes on as if the result were not
  there; a result on which \<open>p\<close> raises another exception ends the iteration with that
  exception, after the results yielded before it. In the runtime \<open>py_cmp\<close> an ordering
  comparison of a \<open>None\<close> attribute raises \<open>TypeError\<close>.
\<close>

theorem type_error_skips_record:
  assumes "make_and_evaluator rt km (query s) (post_inq_filters s) = Inr p"
  shows "(p r = Inl TypeError \<longrightarrow> iter rt km s (rs1 @ r # rs2) = iter rt km s (rs1 @ rs2))
       \<and> (p r = Inl e \<and> e \<noteq> TypeError \<and> snd (iter rt km s rs1) = None \<longrightarrow>
            iter rt km s (rs1 @ r # rs2) = (fst (iter rt km s rs1), Some e))
       \<and> (x nm = Some PNone \<and> opsym \<in> {''<'', ''<='', ''>'', ''>=''} \<longrightarrow>
            (\<exists>ev. make_closure py_cmp \<lparr>name = nm, symbol = opsym, val = v\<rparr> = Inr ev
                \<and> ev x = Inl TypeError))"
proof -
  have 3: "\<exists>ev. make_closure py_cmp \<lparr>name = nm, symbol = opsym, val = v\<rparr> = Inr ev
                \<and> ev x = Inl TypeError"
    if "x nm = Some PNone" "opsym \<in> {''<'', ''<='', ''>'', ''>=''}"
    using that by (auto simp: make_closure_def compare_attr_def getattr_def py_lt_None)
  from assms 3 show ?thesis
    by (simp add: iter_def iter_loop_skip iter_loop_abort)
qed

theorem type_error_skips_record_witness:
  "iter py_cmp employees
     \<lparr>query = employee_query,
      first_inequality = Some \<lparr>name = ''salary'', symbol = ''>'', val = PInt 50000\<rparr>,
      post_inq_filters = [FilterNode ''age'' ''<'' (PInt 30)]\<rparr>
     ([[''salary'' \<mapsto> PInt 60000, ''age'' \<mapsto> PInt 25]]
       @ [''salary'' \<mapsto> PInt 70000, ''age'' \<mapsto> PNone]
       # [[''salary'' \<mapsto> PInt 55000, ''age'' \<mapsto> PInt 29]])
   = ([[''salary'' \<mapsto> PInt 60000, ''age'' \<mapsto> PInt 25],
       [''salary'' \<mapsto> PInt 55000, ''age'' \<mapsto> PInt 29]], None)
   \<and> iter py_cmp employees
     \<lparr>query = employee_query,
      first_inequality = Some \<lparr>name = ''salary'', symbol = ''>'', val = PInt 50000\<rparr>,
      post_inq_filters = [FilterNode ''age'' ''<'' (PInt 30)]\<rparr>
     ([[''salary'' \<mapsto> PInt 60000, ''age'' \<mapsto> PInt 25]]
       @ [''salary'' \<mapsto> PInt 70000]
       # [[''salary'' \<mapsto> PInt 55000, ''age'' \<mapsto> PInt 29]])
   = ([[''salary'' \<mapsto> PInt 60000, ''age'' \<mapsto> PInt 25]], Some AttributeError)
   \<and> (\<exists>ev. make_closure py_cmp \<lparr>name = ''age'', symbol = ''<'', val = PInt 30\<rparr> = Inr ev
          \<and> ev [''salary'' \<mapsto> PInt 70000, ''age'' \<mapsto> PNone] = Inl TypeError)"
proof -
  let ?s = "\<lparr>query = employee_query,
      first_inequality = Some \<lparr>name = ''salary'', symbol = ''>'', val = PInt 50000\<rparr>,
      post_inq_filters = [FilterNode ''age'' ''<'' (PInt 30)]\<rparr>"
  let ?p = "and_evaluators [compare_attr py_cmp Lt \<lparr>name = ''age'', symbol = ''<'', val = PInt 30\<rparr>]"
  let ?a = "[''salary'' \<mapsto> PInt 60000, ''age'' \<mapsto> PInt 25]"
  let ?b = "[''salary'' \<mapsto> PInt 70000, ''age'' \<mapsto> PNone]"
  let ?c = "[''salary'' \<mapsto> PInt 55000, ''age'' \<mapsto> PInt 29]"
  let ?m = "[''salary'' \<mapsto> PInt 70000]"
  have c: "make_and_evaluator py_cmp employees (query ?s) (post_inq_filters ?s) = Inr ?p"
    by (simp add: ev_simps)
  have b: "?p ?b = Inl TypeError"
    by (simp add: compare_attr_def getattr_def)
  have m: "?p ?m = Inl AttributeError \<and> AttributeError \<noteq> TypeError
        \<and> snd (iter py_cmp employees ?s [?a]) = None"
    by (simp add: iter_def ev_simps)
  have r: "iter py_cmp employees ?s ([?a] @ [?c]) = ([?a, ?c], None)"
    by (simp add: iter_def ev_simps)
  have f: "fst (iter py_cmp employees ?s [?a]) = [?a]"
    by (simp add: iter_def ev_simps)
  note t = type_error_skips_record [OF c]
  from t [of ?b "[?a]" "[?c]"] b
  have 1: "iter py_cmp employees ?s ([?a] @ ?b # [?c]) = iter py_cmp employees ?s ([?a] @ [?c])"
    by blast
  from t [of ?m "[?a]" "[?c]" AttributeError] m
  have 2: "iter py_cmp employees ?s ([?a] @ ?m # [?c]) =
      (fst (iter py_cmp employees ?s [?a]), Some AttributeError)"
    by blast
  from t [of _ _ _ _ ?b "''age''" "''<''" "PInt 30"]
  have 3: "\<exists>ev. make_closure py_cmp \<lparr>name = ''age'', symbol = ''<'', val = PInt 30\<rparr> = Inr ev
          \<and> ev ?b = Inl TypeError"
    by simp
  from 1 2 3 show ?thesis unfolding r f by blast
qed

section \<open>A worked example\<close>

text \<open>
  A session on a query already filtered by \<open>dept = ''eng''\<close>: \<open>salary > 50000\<close> goes
  to the query and becomes the first inequality, \<open>age < 30\<close> becomes a post filter, and
  of three candidates the two younger than 30 are handed back.
\<close>

lemma employee_scenario:
  "init (Query \<lparr>kind = ''Employee'',
                filters = Some (FilterNode ''dept'' ''='' (PStr ''eng''))\<rparr>) =
     Inr \<lparr>query = \<lparr>kind = ''Employee'',
                     filters = Some (FilterNode ''dept'' ''='' (PStr ''eng''))\<rparr>,
          first_inequality = None, post_inq_filters = []\<rparr>"
  "filter_mip
     \<lparr>query = \<lparr>kind = ''Employee'',
                filters = Some (FilterNode ''dept'' ''='' (PStr ''eng''))\<rparr>,
      first_inequality = None, post_inq_filters = []\<rparr>
     [Node (FilterNode ''salary'' ''>'' (PInt 50000)), Node (FilterNode ''age'' ''<'' (PInt 30))] =
     (None,
      \<lparr>query = \<lparr>kind = ''Employee'',
                 filters = Some (ConjunctionNode [FilterNode ''dept'' ''='' (PStr ''eng''),
                                                  FilterNode ''salary'' ''>'' (PInt 50000)])\<rparr>,
       first_inequality = Some \<lparr>name = ''salary'', symbol = ''>'', val = PInt 50000\<rparr>,
       post_inq_filters = [FilterNode ''age'' ''<'' (PInt 30)]\<rparr>)"
  "iter py_cmp employees
     \<lparr>query = \<lparr>kind = ''Employee'',
                 filters = Some (ConjunctionNode [FilterNode ''dept'' ''='' (PStr ''eng''),
                                                  FilterNode ''salary'' ''>'' (PInt 50000)])\<rparr>,
       first_inequality = Some \<lparr>name = ''salary'', symbol = ''>'', val = PInt 50000\<rparr>,
       post_inq_filters = [FilterNode ''age'' ''<'' (PInt 30)]\<rparr>
     [[''salary'' \<mapsto> PInt 60000, ''age'' \<mapsto> PInt 25],
      [''salary'' \<mapsto> PInt 70000, ''age'' \<mapsto> PInt 40],
      [''salary'' \<mapsto> PInt 55000, ''age'' \<mapsto> PInt 29]] =
     ([[''salary'' \<mapsto> PInt 60000, ''age'' \<mapsto> PInt 25],
       [''salary'' \<mapsto> PInt 55000, ''age'' \<mapsto> PInt 29]], None)"
  by (simp_all add: init_def get_first_inequality_def push_filter_def query_filter_def
        iter_def ev_simps)

end
